theory Spec2Isabelle
  imports Complex_Main "HOL-Library.AList"
begin

section \<open>Payment server: numbers, bands and the upfront policy\<close>

text \<open>
  Source: \<^verbatim>\<open>src/mcp_servers/payment_server.py\<close>. The helpers of the source carry a
  leading underscore (\<^verbatim>\<open>_clamp\<close>, \<^verbatim>\<open>_lerp\<close>, ...); an Isabelle name cannot start
  with one, so the names below drop it.

  A Python \<^verbatim>\<open>float\<close> is modelled as an exact rational: the model computes what the
  source's arithmetic denotes, without the representation error of binary floating
  point, and has no NaN and no infinity.
\<close>

definition clamp :: "rat \<Rightarrow> rat \<Rightarrow> rat \<Rightarrow> rat" where
  "clamp v lo hi = max lo (min hi v)"

definition lerp :: "rat \<Rightarrow> rat \<Rightarrow> rat \<Rightarrow> rat \<Rightarrow> rat \<Rightarrow> rat" where
  "lerp v x0 x1 y0 y1 =
     (if x1 = x0 then y0
      else let t = (v - x0) / (x1 - x0) in y0 + t * (y1 - y0))"

text \<open>
  \<^verbatim>\<open>round(x, n)\<close> of Python rounds the exact value of \<^verbatim>\<open>x\<close> to \<^verbatim>\<open>n\<close> decimals,
  a tie going to the even neighbour.
\<close>

definition round_half_even :: "rat \<Rightarrow> int" where
  "round_half_even x =
     (let f = \<lfloor>x\<rfloor>; d = x - of_int f
      in if d < 1 / 2 then f
         else if 1 / 2 < d then f + 1
         else if even f then f else f + 1)"

definition py_round :: "rat \<Rightarrow> nat \<Rightarrow> rat" where
  "py_round x n = of_int (round_half_even (x * 10 ^ n)) / 10 ^ n"

datatype band = LOW | MEDIUM | HIGH | VERY_HIGH

definition risk_band :: "rat \<Rightarrow> band" where
  "risk_band score =
     (if 80 \<le> score then LOW
      else if 60 \<le> score then MEDIUM
      else if 40 \<le> score then HIGH
      else VERY_HIGH)"

definition upfront_percent :: "rat \<Rightarrow> rat" where
  "upfront_percent score =
     (let s = clamp score 0 100
      in if 80 \<le> s then 100
         else if 60 \<le> s then lerp s 60 79 70 85
         else if 40 \<le> s then lerp s 40 59 40 60
         else lerp s 0 39 0 30)"

definition milestone_for_band :: "band \<Rightarrow> string" where
  "milestone_for_band b =
     (case b of
        LOW \<Rightarrow> ''full_upfront''
      | MEDIUM \<Rightarrow> ''balance_on_delivery_confirmation''
      | HIGH \<Rightarrow> ''balance_after_quality_verification''
      | VERY_HIGH \<Rightarrow> ''balance_after_full_delivery_and_quality_check'')"

section \<open>Payment server: database rows and the risk score\<close>

text \<open>
  \<^verbatim>\<open>_fetch_one\<close> runs one query: it raises (no connection, missing environment, SQL
  error), or yields no row, or the first row. A cell read through \<^verbatim>\<open>_safe_float\<close> is
  a number, or \<open>None\<close> for NULL and for anything \<^verbatim>\<open>float()\<close> rejects; a cell read
  through \<^verbatim>\<open>int(... or 0)\<close> is a SQL integer or NULL.
\<close>

datatype 'a fetched = DbRaises string | NoRow | Row 'a

definition safe_float :: "rat option \<Rightarrow> rat \<Rightarrow> rat" where
  "safe_float v dflt = (case v of Some x \<Rightarrow> x | None \<Rightarrow> dflt)"

definition int_or_0 :: "int option \<Rightarrow> int" where
  "int_or_0 v = (case v of Some n \<Rightarrow> n | None \<Rightarrow> 0)"

text \<open>The six aggregate queries of \<^verbatim>\<open>_compute_supplier_risk_score\<close> for one supplier.\<close>

record risk_rows =
  ordered_q :: "rat option fetched"
  received_q :: "rat option fetched"
  ontime_q :: "(int option \<times> int option) fetched"
  quality_q :: "(int option \<times> int option) fetched"
  inv_q :: "(int option \<times> int option) fetched"
  pay_q :: "(int option \<times> int option) fetched"

text \<open>\<^verbatim>\<open>(_fetch_one(q) or {}).get(col)\<close>: the exception passes through, no row reads as \<open>None\<close>.\<close>

definition cell :: "'a option fetched \<Rightarrow> string + 'a option" where
  "cell f = (case f of DbRaises m \<Rightarrow> Inl m | NoRow \<Rightarrow> Inr None | Row c \<Rightarrow> Inr c)"

definition cells :: "('a option \<times> 'b option) fetched \<Rightarrow> string + ('a option \<times> 'b option)" where
  "cells f = (case f of DbRaises m \<Rightarrow> Inl m | NoRow \<Rightarrow> Inr (None, None) | Row c \<Rightarrow> Inr c)"

text \<open>The local variables of \<^verbatim>\<open>_compute_supplier_risk_score\<close> before it builds its result.\<close>

record risk_locals =
  ordered_qty :: rat
  received_qty :: rat
  fulfillment :: rat
  ontime_rate :: rat
  quality_rate :: rat
  inv_rej_rate :: rat
  pay_fail_rate :: rat
  score :: rat

definition compute_risk_locals :: "risk_rows \<Rightarrow> string + risk_locals" where
  "compute_risk_locals q =
     (case cell (ordered_q q) of Inl m \<Rightarrow> Inl m | Inr oc \<Rightarrow>
     (case cell (received_q q) of Inl m \<Rightarrow> Inl m | Inr rc \<Rightarrow>
     (let ordered = safe_float oc 0;
          received = safe_float rc 0;
          ful = (if ordered = 0 then 1 else clamp (received / max ordered 1) 0 1)
      in
     (case cells (ontime_q q) of Inl m \<Rightarrow> Inl m | Inr (tg, ot) \<Rightarrow>
     (let total_grn = int_or_0 tg;
          on_time = int_or_0 ot;
          ont = (if total_grn = 0 then 1
                 else clamp (of_int on_time / of_int (max total_grn 1)) 0 1)
      in
     (case cells (quality_q q) of Inl m \<Rightarrow> Inl m | Inr (qt, qo) \<Rightarrow>
     (let q_total = int_or_0 qt;
          q_ok = int_or_0 qo;
          qua = (if q_total = 0 then 1
                 else clamp (of_int q_ok / of_int (max q_total 1)) 0 1)
      in
     (case cells (inv_q q) of Inl m \<Rightarrow> Inl m | Inr (it, ir) \<Rightarrow>
     (let inv_total = int_or_0 it;
          inv_rej = int_or_0 ir;
          inv = (if inv_total = 0 then 0
                 else clamp (of_int inv_rej / of_int (max inv_total 1)) 0 1)
      in
     (case cells (pay_q q) of Inl m \<Rightarrow> Inl m | Inr (pt, pf) \<Rightarrow>
     (let pay_total = int_or_0 pt;
          pay_fail = int_or_0 pf;
          pay = (if pay_total = 0 then 0
                 else clamp (of_int pay_fail / of_int (max pay_total 1)) 0 1)
      in
      Inr \<lparr>ordered_qty = ordered, received_qty = received, fulfillment = ful,
           ontime_rate = ont, quality_rate = qua, inv_rej_rate = inv, pay_fail_rate = pay,
           score = 35 * ful + 25 * ont + 20 * qua + 10 * (1 - inv) + 10 * (1 - pay)\<rparr>
     )))))))))))"

record risk_metrics =
  m_ordered_qty :: rat
  m_received_qty :: rat
  fulfillment_ratio :: rat
  m_ontime_rate :: rat
  quality_ok_rate :: rat
  invoice_rejection_rate :: rat
  payment_failure_rate :: rat

record risk_result =
  r_supplier_id :: "string option"
  risk_score :: rat
  r_risk_band :: band
  metrics :: risk_metrics

definition compute_supplier_risk_score ::
  "(string option \<Rightarrow> risk_rows) \<Rightarrow> string option \<Rightarrow> string + risk_result" where
  "compute_supplier_risk_score history supplier_id =
     (case compute_risk_locals (history supplier_id) of
        Inl m \<Rightarrow> Inl m
      | Inr l \<Rightarrow>
          Inr \<lparr>r_supplier_id = supplier_id,
               risk_score = py_round (score l) 2,
               r_risk_band = risk_band (score l),
               metrics = \<lparr>m_ordered_qty = ordered_qty l,
                          m_received_qty = received_qty l,
                          fulfillment_ratio = py_round (fulfillment l) 3,
                          m_ontime_rate = py_round (ontime_rate l) 3,
                          quality_ok_rate = py_round (quality_rate l) 3,
                          invoice_rejection_rate = py_round (inv_rej_rate l) 3,
                          payment_failure_rate = py_round (pay_fail_rate l) 3\<rparr>\<rparr>)"

section \<open>Payment server: purchase-order totals and the payment plan\<close>

record head_row =
  h_supplier_id :: "string option"
  h_currency :: "string option"
  h_exchange_rate :: "rat option"
  h_tax_amount :: "rat option"
  h_freight_amount :: "rat option"

text \<open>
  What the payment server reads: the names of the required environment variables
  that are unset (\<^verbatim>\<open>_missing_env\<close>), and the result of each query.
\<close>

record database =
  missing_env :: "string list"
  exists_q :: "int \<Rightarrow> unit fetched"
  line_q :: "int \<Rightarrow> rat option fetched"
  head_q :: "int \<Rightarrow> head_row fetched"
  history :: "string option \<Rightarrow> risk_rows"

text \<open>A reference to a purchase order as a tool receives it: \<^verbatim>\<open>Union[int, str]\<close>.\<close>

datatype po_ref = PoInt int | PoStr string

text \<open>The error dictionaries \<^verbatim>\<open>{"error": True, "message": ...}\<close>, one constructor per message.\<close>

datatype tool_error =
    MissingEnv "string list"
  | CannotResolve po_ref
  | NotInPurchaseOrders int
  | PONotFound int
  | SupplierIdRequired
  | ToolFailed string string

text \<open>A function of the server raises, returns an error dictionary, or returns its result.\<close>

datatype 'a returned = Raised string | Err tool_error | Ok 'a

record base_amount =
  b_po_id :: int
  b_supplier_id :: "string option"
  b_currency :: "string option"
  b_exchange_rate :: rat
  b_line_total :: rat
  b_tax_amount :: rat
  b_freight_amount :: rat
  b_total_po_amount :: rat
  b_total_in_inr :: rat

definition compute_base_po_amount :: "database \<Rightarrow> int \<Rightarrow> base_amount returned" where
  "compute_base_po_amount db po_id =
     (case cell (line_q db po_id) of Inl m \<Rightarrow> Raised m | Inr line_cell \<Rightarrow>
     (case head_q db po_id of
        DbRaises m \<Rightarrow> Raised m
      | NoRow \<Rightarrow> Err (PONotFound po_id)
      | Row h \<Rightarrow>
          let line_total = safe_float line_cell 0;
              tax_amt = safe_float (h_tax_amount h) 0;
              freight_amt = safe_float (h_freight_amount h) 0;
              ex_rate = safe_float (h_exchange_rate h) 1;
              total_base = line_total + tax_amt + freight_amt;
              total_in_inr = total_base * ex_rate
          in Ok \<lparr>b_po_id = po_id,
                  b_supplier_id = h_supplier_id h,
                  b_currency = h_currency h,
                  b_exchange_rate = ex_rate,
                  b_line_total = py_round line_total 2,
                  b_tax_amount = py_round tax_amt 2,
                  b_freight_amount = py_round freight_amt 2,
                  b_total_po_amount = py_round total_base 2,
                  b_total_in_inr = py_round total_in_inr 2\<rparr>))"

record policy =
  p_band :: band
  p_upfront_percent :: rat
  p_balance_percent :: rat
  p_milestone :: string
  p_policy_version :: string

record payment_plan =
  pp_po_id :: int
  pp_supplier_id :: "string option"
  pp_currency :: "string option"
  pp_exchange_rate :: rat
  pp_line_total :: rat
  pp_tax_amount :: rat
  pp_freight_amount :: rat
  pp_total_po_amount :: rat
  total_in_inr :: rat
  pp_risk :: risk_result
  pp_policy :: policy
  upfront_amount :: rat
  balance_amount :: rat

text \<open>\<^verbatim>\<open>_recommend_payment_plan\<close>.\<close>

definition recommend_payment_plan_of :: "database \<Rightarrow> int \<Rightarrow> payment_plan returned" where
  "recommend_payment_plan_of db po_id =
     (case compute_base_po_amount db po_id of
        Raised m \<Rightarrow> Raised m
      | Err e \<Rightarrow> Err e
      | Ok base \<Rightarrow>
         (let supplier_id = b_supplier_id base
          in case compute_supplier_risk_score (history db) supplier_id of
               Inl m \<Rightarrow> Raised m
             | Inr risk \<Rightarrow>
                 let score = risk_score risk;
                     band = r_risk_band risk;
                     upfront_pct = upfront_percent score;
                     total = safe_float (Some (b_total_in_inr base)) 0;
                     upfront_amt = py_round (total * upfront_pct / 100) 2;
                     balance_amt = py_round (total - upfront_amt) 2
                 in Ok \<lparr>pp_po_id = po_id,
                         pp_supplier_id = supplier_id,
                         pp_currency = b_currency base,
                         pp_exchange_rate = b_exchange_rate base,
                         pp_line_total = b_line_total base,
                         pp_tax_amount = b_tax_amount base,
                         pp_freight_amount = b_freight_amount base,
                         pp_total_po_amount = b_total_po_amount base,
                         total_in_inr = total,
                         pp_risk = risk,
                         pp_policy = \<lparr>p_band = band,
                                       p_upfront_percent = py_round upfront_pct 2,
                                       p_balance_percent = py_round (100 - upfront_pct) 2,
                                       p_milestone = milestone_for_band band,
                                       p_policy_version = ''2025-08-21''\<rparr>,
                         upfront_amount = upfront_amt,
                         balance_amount = balance_amt\<rparr>))"

section \<open>Payment server: resolving a purchase-order reference\<close>

text \<open>
  Strings are byte strings here: \<^verbatim>\<open>strip\<close>, \<^verbatim>\<open>upper\<close> and \<^verbatim>\<open>int\<close> are modelled on
  ASCII, where Python's whitespace is 9..13 and 28..32.
\<close>

definition is_space :: "char \<Rightarrow> bool" where
  "is_space c = (let n = (of_char c :: nat) in (9 \<le> n \<and> n \<le> 13) \<or> (28 \<le> n \<and> n \<le> 32))"

definition py_strip :: "string \<Rightarrow> string" where
  "py_strip s = rev (dropWhile is_space (rev (dropWhile is_space s)))"

definition to_upper :: "char \<Rightarrow> char" where
  "to_upper c = (let n = (of_char c :: nat) in if 97 \<le> n \<and> n \<le> 122 then char_of (n - 32) else c)"

definition py_upper :: "string \<Rightarrow> string" where
  "py_upper s = map to_upper s"

definition startswith :: "string \<Rightarrow> string \<Rightarrow> bool" where
  "startswith s p = (take (length p) s = p)"

definition is_digit :: "char \<Rightarrow> bool" where
  "is_digit c = (let n = (of_char c :: nat) in 48 \<le> n \<and> n \<le> 57)"

text \<open>
  The digits of a decimal literal as \<^verbatim>\<open>int(str)\<close> reads them: at least one digit,
  single underscores only between digits. The flag says that the previous character
  was a digit.
\<close>

fun parse_digits :: "bool \<Rightarrow> int \<Rightarrow> string \<Rightarrow> int option" where
  "parse_digits prev acc [] = (if prev then Some acc else None)"
| "parse_digits prev acc (c # cs) =
     (if is_digit c then parse_digits True (acc * 10 + (of_char c - 48)) cs
      else if c = CHR ''_'' \<and> prev \<and> cs \<noteq> [] then parse_digits False acc cs
      else None)"

definition py_int_of_str :: "string \<Rightarrow> int option" where
  "py_int_of_str s =
     (case py_strip s of
        [] \<Rightarrow> None
      | c # cs \<Rightarrow>
          if c = CHR ''+'' then parse_digits False 0 cs
          else if c = CHR ''-'' then map_option uminus (parse_digits False 0 cs)
          else parse_digits False 0 (c # cs))"

text \<open>\<^verbatim>\<open>int(po_ref)\<close>: \<open>None\<close> when it raises.\<close>

definition py_int :: "po_ref \<Rightarrow> int option" where
  "py_int r = (case r of PoInt i \<Rightarrow> Some i | PoStr s \<Rightarrow> py_int_of_str s)"

definition looks_like_request_code :: "po_ref \<Rightarrow> bool" where
  "looks_like_request_code po_ref =
     (if (case po_ref of PoStr s \<Rightarrow> startswith (py_upper (py_strip s)) ''PO-'' | PoInt _ \<Rightarrow> False)
      then True
      else case py_int po_ref of
             Some i \<Rightarrow> if 10000000 < i then True else False
           | None \<Rightarrow> False)"

definition STATIC_PO_MAP :: "(string \<times> int) list" where
  "STATIC_PO_MAP = [(''SUP001'', 1), (''SUP002'', 2), (''SUP003'', 3), (''SUP999'', 4)]"

definition map_request_to_po :: "po_ref \<Rightarrow> string option \<Rightarrow> int option" where
  "map_request_to_po po_ref supplier_id =
     (case py_int po_ref of
        Some as_int \<Rightarrow> Some as_int
      | None \<Rightarrow>
         (case supplier_id of
            Some given \<Rightarrow>
              if looks_like_request_code po_ref \<and> given \<noteq> []
              then (case map_of STATIC_PO_MAP (py_upper (py_strip given)) of
                      Some pid \<Rightarrow> if pid \<noteq> 0 then Some pid else None
                    | None \<Rightarrow> None)
              else None
          | None \<Rightarrow> None))"

definition po_exists :: "database \<Rightarrow> int \<Rightarrow> string + bool" where
  "po_exists db db_po_id =
     (case exists_q db db_po_id of
        DbRaises m \<Rightarrow> Inl m
      | NoRow \<Rightarrow> Inr False
      | Row _ \<Rightarrow> Inr True)"

section \<open>Payment server: the tools\<close>


definition recommend_payment_plan ::
  "database \<Rightarrow> po_ref \<Rightarrow> string option \<Rightarrow> tool_error + payment_plan" where
  "recommend_payment_plan db po_id supplier_id =
     (if missing_env db \<noteq> [] then Inl (MissingEnv (missing_env db))
      else (case map_request_to_po po_id supplier_id of
              None \<Rightarrow> Inl (CannotResolve po_id)
            | Some pid \<Rightarrow>
                if pid = 0 then Inl (CannotResolve po_id)
                else (case po_exists db pid of
                        Inl m \<Rightarrow> Inl (ToolFailed ''recommend_payment_plan'' m)
                      | Inr found \<Rightarrow>
                          if \<not> found then Inl (NotInPurchaseOrders pid)
                          else (case recommend_payment_plan_of db pid of
                                  Raised m \<Rightarrow> Inl (ToolFailed ''recommend_payment_plan'' m)
                                | Err e \<Rightarrow> Inl e
                                | Ok plan \<Rightarrow> Inr plan))))"

section \<open>Python values\<close>

text \<open>
  The values a purchase-order request, a workflow state and a collaborator's response
  are made of: what JSON can carry. A \<^verbatim>\<open>float\<close> is an exact rational here; a
  dictionary is an association list read with \<open>map_of\<close> and written with
  \<open>AList.update\<close>.
\<close>

datatype pyval =
    PNone
  | PBool bool
  | PInt int
  | PFloat rat
  | PStr string
  | PList "pyval list"
  | PDict "(string \<times> pyval) list"

type_synonym pydict = "(string \<times> pyval) list"

text \<open>\<^verbatim>\<open>bool(v)\<close>, which \<^verbatim>\<open>if v\<close> and \<^verbatim>\<open>not v\<close> test.\<close>

fun truthy :: "pyval \<Rightarrow> bool" where
  "truthy PNone = False"
| "truthy (PBool b) = b"
| "truthy (PInt i) = (i \<noteq> 0)"
| "truthy (PFloat x) = (x \<noteq> 0)"
| "truthy (PStr s) = (s \<noteq> [])"
| "truthy (PList xs) = (xs \<noteq> [])"
| "truthy (PDict d) = (d \<noteq> [])"

text \<open>
  The number a value is when \<^verbatim>\<open>isinstance(v, (int, float))\<close> holds; \<^verbatim>\<open>bool\<close> is a
  subclass of \<^verbatim>\<open>int\<close> in Python, with \<^verbatim>\<open>True == 1\<close>.
\<close>

fun num_value :: "pyval \<Rightarrow> rat option" where
  "num_value (PBool b) = Some (if b then 1 else 0)"
| "num_value (PInt i) = Some (of_int i)"
| "num_value (PFloat x) = Some x"
| "num_value PNone = None"
| "num_value (PStr s) = None"
| "num_value (PList xs) = None"
| "num_value (PDict d) = None"

fun is_list :: "pyval \<Rightarrow> bool" where
  "is_list (PList xs) = True"
| "is_list PNone = False"
| "is_list (PBool b) = False"
| "is_list (PInt i) = False"
| "is_list (PFloat x) = False"
| "is_list (PStr s) = False"
| "is_list (PDict d) = False"

fun py_len :: "pyval \<Rightarrow> nat" where
  "py_len (PList xs) = length xs"
| "py_len (PStr s) = length s"
| "py_len (PDict d) = length d"
| "py_len PNone = 0"
| "py_len (PBool b) = 0"
| "py_len (PInt i) = 0"
| "py_len (PFloat x) = 0"

section \<open>Request validation (\<^verbatim>\<open>src/utils/helpers.py\<close>)\<close>

definition required_fields :: "string list" where
  "required_fields = [''supplier_id'', ''amount'', ''department'', ''items'']"

text \<open>\<^verbatim>\<open>field not in po_request or not po_request[field]\<close>.\<close>

definition field_missing :: "pydict \<Rightarrow> string \<Rightarrow> bool" where
  "field_missing po_request field =
     (case map_of po_request field of None \<Rightarrow> True | Some v \<Rightarrow> \<not> truthy v)"

text \<open>
  \<^verbatim>\<open>po_request[field]\<close> after the loop over the required fields, which has returned
  unless the key is there; \<open>PNone\<close> stands for the \<^verbatim>\<open>KeyError\<close> that cannot happen.
\<close>

definition field_value :: "pydict \<Rightarrow> string \<Rightarrow> pyval" where
  "field_value po_request field =
     (case map_of po_request field of Some v \<Rightarrow> v | None \<Rightarrow> PNone)"

definition validate_po_request :: "pydict \<Rightarrow> bool \<times> string" where
  "validate_po_request po_request =
     (case find (field_missing po_request) required_fields of
        Some field \<Rightarrow> (False, ''Missing required field: '' @ field)
      | None \<Rightarrow>
          if (case num_value (field_value po_request ''amount'') of
                None \<Rightarrow> True
              | Some x \<Rightarrow> x \<le> 0)
          then (False, ''Amount must be a positive number'')
          else if \<not> is_list (field_value po_request ''items'')
                  \<or> py_len (field_value po_request ''items'') = 0
          then (False, ''Items must be a non-empty list'')
          else (True, ''Valid''))"

section \<open>Workflow state and collaborators (\<^verbatim>\<open>src/workflows/po_workflow.py\<close>)\<close>

text \<open>
  The state has the keys and types of \<^verbatim>\<open>POWorkflowState\<close>. \<^verbatim>\<open>payment_plan\<close> is the one
  key \<^verbatim>\<open>process_po\<close> does not initialise, so it may be absent. A message is kept as its
  content. \<^verbatim>\<open>processing_time\<close> is wall-clock time, which no handler and no routing
  decision reads; it is left out.
\<close>

record po_state =
  messages :: "string list"
  po_request :: pydict
  po_id :: string
  supplier_validation :: pydict
  budget_check :: pydict
  approval_status :: pydict
  payment_plan :: "pyval option"
  payment_attempted :: bool
  notifications :: "pyval list"
  final_decision :: string
  decision_reason :: string
  errors :: "string list"

text \<open>
  A tool is what \<^verbatim>\<open>ainvoke\<close> on it does: raise, or return a raw response.
  \<^verbatim>\<open>mcp_client.get_tools\<close> raises, or returns a list of tools (each with or without a
  name), or a dictionary of tools, or something else.
\<close>

datatype call = CallRaises string | CallReturns pyval

datatype tools_reply =
    GetRaises string
  | GetList "(string option \<times> call) list"
  | GetDict "(string \<times> call) list"
  | GetOther

text \<open>
  Everything outside the workflow that a run depends on. How Python prints a value
  (\<^verbatim>\<open>str\<close>, \<^verbatim>\<open>type\<close>) and how it formats a number with a format specification only
  produce message text; they are parameters.
\<close>

record env =
  get_tools :: "string \<Rightarrow> tools_reply"
  json_loads :: "string \<Rightarrow> pyval option"
  now_iso :: string
  new_po_id :: string
  llm_reply :: "string option"
  py_str :: "pyval \<Rightarrow> string"
  type_str :: "pyval \<Rightarrow> string"
  fmt :: "string \<Rightarrow> rat \<Rightarrow> string"

text \<open>
  An expression that may raise has a value of type \<open>string + 'a\<close>: \<open>Inl\<close> carries the
  text of the exception (\<^verbatim>\<open>str(e)\<close>). The text of an exception raised by the
  interpreter itself is a label.
\<close>

definition dict_item :: "pydict \<Rightarrow> string \<Rightarrow> string + pyval" where
  "dict_item d k =
     (case map_of d k of
        Some v \<Rightarrow> Inr v
      | None \<Rightarrow> Inl ([CHR 0x27] @ k @ [CHR 0x27]))"

definition dict_get :: "pydict \<Rightarrow> string \<Rightarrow> pyval \<Rightarrow> pyval" where
  "dict_get d k dflt = (case map_of d k of Some v \<Rightarrow> v | None \<Rightarrow> dflt)"

text \<open>\<^verbatim>\<open>v.get(k, default)\<close> on any value: only a dictionary has \<^verbatim>\<open>get\<close>.\<close>

definition py_get :: "pyval \<Rightarrow> string \<Rightarrow> pyval \<Rightarrow> string + pyval" where
  "py_get v k dflt =
     (case v of
        PDict d \<Rightarrow> Inr (dict_get d k dflt)
      | _ \<Rightarrow> Inl ''object has no attribute get'')"

text \<open>\<^verbatim>\<open>v[k]\<close> with a string key.\<close>

definition py_item :: "pyval \<Rightarrow> string \<Rightarrow> string + pyval" where
  "py_item v k =
     (case v of
        PDict d \<Rightarrow> dict_item d k
      | _ \<Rightarrow> Inl ''object is not subscriptable by a string'')"

text \<open>\<^verbatim>\<open>format_currency\<close> of \<^verbatim>\<open>utils/helpers.py\<close>: \<^verbatim>\<open>f"${amount:,.2f}"\<close>.\<close>

definition format_currency :: "env \<Rightarrow> pyval \<Rightarrow> string + string" where
  "format_currency env amount =
     (case num_value amount of
        Some x \<Rightarrow> Inr (''$'' @ fmt env '',.2f'' x)
      | None \<Rightarrow> Inl ''unsupported format string'')"

definition format_2f :: "env \<Rightarrow> pyval \<Rightarrow> string + string" where
  "format_2f env v =
     (case num_value v of
        Some x \<Rightarrow> Inr (fmt env ''.2f'' x)
      | None \<Rightarrow> Inl ''unsupported format string'')"

fun str_items :: "pyval list \<Rightarrow> string list option" where
  "str_items [] = Some []"
| "str_items (v # vs) =
     (case v of
        PStr s \<Rightarrow> map_option ((#) s) (str_items vs)
      | _ \<Rightarrow> None)"

fun join_strings :: "string \<Rightarrow> string list \<Rightarrow> string" where
  "join_strings sep [] = []"
| "join_strings sep [x] = x"
| "join_strings sep (x # y # ys) = x @ sep @ join_strings sep (y # ys)"

text \<open>
  \<^verbatim>\<open>sep.join(v)\<close>: \<^verbatim>\<open>v\<close> must be iterable and yield strings; a string yields its
  characters, a dictionary its keys.
\<close>

definition py_join :: "string \<Rightarrow> pyval \<Rightarrow> string + string" where
  "py_join sep v =
     (case v of
        PList xs \<Rightarrow>
          (case str_items xs of
             Some ss \<Rightarrow> Inr (join_strings sep ss)
           | None \<Rightarrow> Inl ''sequence item: expected str instance'')
      | PStr s \<Rightarrow> Inr (join_strings sep (map (\<lambda>c. [c]) s))
      | PDict d \<Rightarrow> Inr (join_strings sep (map fst d))
      | _ \<Rightarrow> Inl ''can only join an iterable'')"

subsection \<open>\<^verbatim>\<open>_handle_tool_response\<close> and \<^verbatim>\<open>get_tools_safe\<close>\<close>

definition error_response :: "string \<Rightarrow> pyval" where
  "error_response message = PDict [(''error'', PBool True), (''message'', PStr message)]"

definition handle_tool_response :: "env \<Rightarrow> pyval \<Rightarrow> pyval" where
  "handle_tool_response env response =
     (case response of
        PStr s \<Rightarrow>
          (case json_loads env s of
             Some parsed_response \<Rightarrow> parsed_response
           | None \<Rightarrow> error_response s)
      | PDict d \<Rightarrow> PDict d
      | PList xs \<Rightarrow>
          (case xs of
             [] \<Rightarrow> error_response (''Unexpected response type: '' @ type_str env response)
           | first # _ \<Rightarrow>
               (case first of
                  PDict d \<Rightarrow> first
                | _ \<Rightarrow> error_response (py_str env response)))
      | _ \<Rightarrow> error_response (''Unexpected response type: '' @ type_str env response))"

text \<open>What \<^verbatim>\<open>get_tools_safe\<close> returns: a dictionary of tools by name, or another object.\<close>

datatype tools = ToolDict "(string \<times> call) list" | NotADict

definition named_tools :: "(string option \<times> call) list \<Rightarrow> (string \<times> call) list" where
  "named_tools ts =
     foldl (\<lambda>d (name, tool). case name of Some k \<Rightarrow> AList.update k tool d | None \<Rightarrow> d) [] ts"

definition get_tools_safe :: "env \<Rightarrow> string \<Rightarrow> tools" where
  "get_tools_safe env server_name =
     (case get_tools env server_name of
        GetRaises e \<Rightarrow> ToolDict []
      | GetList ts \<Rightarrow>
          if ts \<noteq> []
          then (let tool_dict = named_tools ts
                in if tool_dict \<noteq> [] then ToolDict tool_dict else NotADict)
          else ToolDict []
      | GetDict d \<Rightarrow> ToolDict d
      | GetOther \<Rightarrow> NotADict)"

text \<open>\<^verbatim>\<open>tools.get(name)\<close>: \<open>None\<close> when the dictionary has no such tool.\<close>

definition tool_get :: "tools \<Rightarrow> string \<Rightarrow> string + call option" where
  "tool_get ts name =
     (case ts of
        ToolDict d \<Rightarrow> Inr (map_of d name)
      | NotADict \<Rightarrow> Inl ''object has no attribute get'')"

definition available :: "env \<Rightarrow> tools \<Rightarrow> string" where
  "available env ts =
     (case ts of
        ToolDict d \<Rightarrow> py_str env (PList (map (\<lambda>(k, t). PStr k) d))
      | NotADict \<Rightarrow> ''<tools>'')"

definition ainvoke :: "call \<Rightarrow> string + pyval" where
  "ainvoke c = (case c of CallRaises e \<Rightarrow> Inl e | CallReturns r \<Rightarrow> Inr r)"

subsection \<open>The body of a \<^verbatim>\<open>try\<close> block\<close>

text \<open>
  A handler mutates the state in place, so what it has written before an exception
  stays written. The body of a \<^verbatim>\<open>try\<close> block returns the text of the exception that
  left it, if any, and the state at that moment. \<open>on_value r s k\<close> evaluates \<open>r\<close>
  in state \<open>s\<close> and goes on with \<open>k\<close>, or leaves the block if \<open>r\<close> raises.
\<close>

type_synonym tried = "string option \<times> po_state"

definition on_value :: "string + 'a \<Rightarrow> po_state \<Rightarrow> ('a \<Rightarrow> tried) \<Rightarrow> tried" where
  "on_value r s k = (case r of Inl e \<Rightarrow> (Some e, s) | Inr v \<Rightarrow> k v)"

definition raise :: "string \<Rightarrow> po_state \<Rightarrow> tried" where
  "raise e s = (Some e, s)"

definition return :: "po_state \<Rightarrow> tried" where
  "return s = (None, s)"

section \<open>Stage handlers\<close>

subsection \<open>\<^verbatim>\<open>validate_po_request\<close> of the workflow\<close>

definition validate_request_try :: "env \<Rightarrow> po_state \<Rightarrow> tried" where
  "validate_request_try env s =
     (let s1 = (if po_id s = []
                then s\<lparr>po_id := new_po_id env,
                       po_request := AList.update ''po_id'' (PStr (new_po_id env)) (po_request s)\<rparr>
                else s);
          po_req = po_request s1;
          (is_valid, validation_message) = validate_po_request po_req
      in if \<not> is_valid
         then return (s1\<lparr>final_decision := ''REJECTED'',
                          decision_reason := ''Validation failed: '' @ validation_message,
                          errors := errors s1 @ [validation_message]\<rparr>)
         else
          (let s2 = (case format_currency env (dict_get po_req ''amount'' (PInt 0)) of
                       Inl e \<Rightarrow> s1
                     | Inr shown \<Rightarrow>
                        (case llm_reply env of
                           None \<Rightarrow> s1
                         | Some content \<Rightarrow>
                             s1\<lparr>messages := messages s1 @ [''AI Analysis: '' @ content]\<rparr>))
           in on_value (dict_item po_req ''amount'') s2 (\<lambda>amount.
              on_value (format_currency env amount) s2 (\<lambda>shown.
              return (s2\<lparr>messages := messages s2 @
                  [''PO '' @ po_id s2 @ '' validated successfully. Amount: '' @ shown]\<rparr>)))))"

definition validate_request :: "env \<Rightarrow> po_state \<Rightarrow> po_state" where
  "validate_request env s =
     (case validate_request_try env s of
        (None, s') \<Rightarrow> s'
      | (Some e, s') \<Rightarrow>
          (let error_msg = ''Error during PO validation: '' @ e
           in s'\<lparr>errors := errors s' @ [error_msg],
                 final_decision := ''ERROR'',
                 decision_reason := error_msg\<rparr>))"

subsection \<open>\<^verbatim>\<open>check_supplier\<close>\<close>

text \<open>The list \<^verbatim>\<open>reasons\<close> of the rejecting branch.\<close>

definition supplier_reasons ::
  "env \<Rightarrow> pyval \<Rightarrow> pyval \<Rightarrow> pyval \<Rightarrow> bool \<Rightarrow> bool \<Rightarrow> string + pyval list" where
  "supplier_reasons env supplier_result capacity_result order_amount is_valid capacity_ok =
     (case (if \<not> is_valid
            then (case py_get supplier_result ''message'' (PStr ''Supplier validation failed'') of
                    Inl e \<Rightarrow> Inl e
                  | Inr message \<Rightarrow> Inr [message])
            else Inr []) of
        Inl e \<Rightarrow> Inl e
      | Inr reasons \<Rightarrow>
          if \<not> capacity_ok
          then (case py_get capacity_result ''max_capacity'' (PInt 0) of
                  Inl e \<Rightarrow> Inl e
                | Inr max_cap \<Rightarrow>
                   (case format_currency env order_amount of
                      Inl e \<Rightarrow> Inl e
                    | Inr shown_amount \<Rightarrow>
                       (case format_currency env max_cap of
                          Inl e \<Rightarrow> Inl e
                        | Inr shown_cap \<Rightarrow>
                            Inr (reasons @ [PStr (''Order exceeds capacity: '' @ shown_amount
                                                  @ '' > '' @ shown_cap)]))))
          else Inr reasons)"

definition check_supplier_try :: "env \<Rightarrow> po_state \<Rightarrow> tried" where
  "check_supplier_try env s =
     (let supplier_tools = get_tools_safe env ''supplier''
      in on_value (dict_item (po_request s) ''supplier_id'') s (\<lambda>supplier_id.
         on_value (dict_item (po_request s) ''amount'') s (\<lambda>order_amount.
         on_value (tool_get supplier_tools ''validate_supplier'') s (\<lambda>validate_tool.
         on_value (tool_get supplier_tools ''check_supplier_capacity'') s (\<lambda>capacity_tool.
         (case validate_tool of
            None \<Rightarrow> raise (''Required supplier tools not found. Available: ''
                            @ available env supplier_tools) s
          | Some vt \<Rightarrow>
         (case capacity_tool of
            None \<Rightarrow> raise (''Required supplier tools not found. Available: ''
                            @ available env supplier_tools) s
          | Some ct \<Rightarrow>
         on_value (ainvoke vt) s (\<lambda>raw_supplier_result.
         on_value (ainvoke ct) s (\<lambda>raw_capacity_result.
         (let supplier_result = handle_tool_response env raw_supplier_result;
              capacity_result = handle_tool_response env raw_capacity_result;
              s1 = s\<lparr>supplier_validation :=
                       [(''validation'', supplier_result),
                        (''capacity'', capacity_result),
                        (''checked_at'', PStr (now_iso env))]\<rparr>
          in on_value (py_get supplier_result ''error'' (PBool False)) s1 (\<lambda>supplier_error.
             if truthy supplier_error
             then (let s2 = s1\<lparr>final_decision := ''REJECTED''\<rparr>
                   in on_value (py_get supplier_result ''message'' (PStr ''Unknown error'')) s2
                        (\<lambda>message. return (s2\<lparr>decision_reason :=
                            ''Supplier validation error: '' @ py_str env message\<rparr>)))
             else
             on_value (py_get capacity_result ''error'' (PBool False)) s1 (\<lambda>capacity_error.
             if truthy capacity_error
             then (let s2 = s1\<lparr>final_decision := ''REJECTED''\<rparr>
                   in on_value (py_get capacity_result ''message'' (PStr ''Unknown error'')) s2
                        (\<lambda>message. return (s2\<lparr>decision_reason :=
                            ''Supplier capacity check error: '' @ py_str env message\<rparr>)))
             else
             on_value (py_get supplier_result ''valid'' (PBool False)) s1 (\<lambda>valid.
             on_value (py_get capacity_result ''capacity_ok'' (PBool False)) s1 (\<lambda>cap_ok.
             (let is_valid = truthy valid; capacity_ok = truthy cap_ok
              in if \<not> is_valid \<or> \<not> capacity_ok
                 then on_value (supplier_reasons env supplier_result capacity_result
                                  order_amount is_valid capacity_ok) s1 (\<lambda>reasons.
                      (let s2 = s1\<lparr>final_decision := ''REJECTED''\<rparr>
                       in on_value (py_join ''; '' (PList reasons)) s2 (\<lambda>joined.
                          return (s2\<lparr>decision_reason :=
                              ''Supplier validation failed: '' @ joined\<rparr>))))
                 else return (s1\<lparr>messages := messages s1 @
                        [''Supplier '' @ py_str env supplier_id
                         @ '' validated successfully'']\<rparr>))))))))))))))))"

definition check_supplier :: "env \<Rightarrow> po_state \<Rightarrow> po_state" where
  "check_supplier env s =
     (case check_supplier_try env s of
        (None, s') \<Rightarrow> s'
      | (Some e, s') \<Rightarrow>
          (let error_msg = ''Error during supplier validation: '' @ e
           in s'\<lparr>errors := errors s' @ [error_msg],
                 final_decision := ''ERROR'',
                 decision_reason := error_msg\<rparr>))"

subsection \<open>\<^verbatim>\<open>verify_budget\<close>\<close>

definition reserve_budget_step :: "env \<Rightarrow> call option \<Rightarrow> pyval \<Rightarrow> po_state \<Rightarrow> tried" where
  "reserve_budget_step env reserve_tool amount s =
     (case reserve_tool of
        None \<Rightarrow> return s
      | Some rt \<Rightarrow>
          on_value (ainvoke rt) s (\<lambda>raw_reserve_result.
          (let reserve_result = handle_tool_response env raw_reserve_result
           in on_value (py_get reserve_result ''error'' (PBool False)) s (\<lambda>reserve_error.
              if truthy reserve_error then return s
              else
              on_value (py_get reserve_result ''reserved'' (PBool False)) s (\<lambda>reserved.
              if \<not> truthy reserved then return s
              else
              (let s1 = s\<lparr>budget_check :=
                           AList.update ''reservation'' reserve_result (budget_check s)\<rparr>
               in on_value (format_currency env amount) s1 (\<lambda>shown.
                  return (s1\<lparr>messages := messages s1 @ [''Budget reserved: '' @ shown]\<rparr>))))))))"

definition verify_budget_try :: "env \<Rightarrow> po_state \<Rightarrow> tried" where
  "verify_budget_try env s =
     (let budget_tools = get_tools_safe env ''budget''
      in on_value (dict_item (po_request s) ''department'') s (\<lambda>department_id.
         on_value (dict_item (po_request s) ''amount'') s (\<lambda>amount.
         on_value (tool_get budget_tools ''check_budget_availability'') s (\<lambda>check_tool.
         on_value (tool_get budget_tools ''reserve_budget'') s (\<lambda>reserve_tool.
         (case check_tool of
            None \<Rightarrow> raise (''Budget check tool not found. Available: ''
                            @ available env budget_tools) s
          | Some ct \<Rightarrow>
         on_value (ainvoke ct) s (\<lambda>raw_budget_result.
         (let budget_result = handle_tool_response env raw_budget_result
          in on_value (py_get budget_result ''error'' (PBool False)) s (\<lambda>budget_error.
             if truthy budget_error
             then (let s1 = s\<lparr>final_decision := ''ERROR''\<rparr>
                   in on_value (py_get budget_result ''message'' (PStr ''Unknown error'')) s1
                        (\<lambda>message. return (s1\<lparr>decision_reason :=
                            ''Budget check error: '' @ py_str env message\<rparr>)))
             else
             (let s1 = s\<lparr>budget_check :=
                          (case budget_result of
                             PDict d \<Rightarrow> AList.update ''checked_at'' (PStr (now_iso env)) d
                           | _ \<Rightarrow> [(''checked_at'', PStr (now_iso env))])\<rparr>
              in on_value (py_get budget_result ''available'' (PBool False)) s1 (\<lambda>is_available.
                 on_value (py_get budget_result ''amount_available'' (PInt 0)) s1
                   (\<lambda>available_amount.
                 if \<not> truthy is_available
                 then (let s2 = s1\<lparr>final_decision := ''REJECTED''\<rparr>
                       in on_value (format_currency env amount) s2 (\<lambda>shown_amount.
                          on_value (format_currency env available_amount) s2 (\<lambda>shown_available.
                          return (s2\<lparr>decision_reason :=
                              ''Insufficient budget: requested '' @ shown_amount
                              @ '', available '' @ shown_available\<rparr>))))
                 else reserve_budget_step env reserve_tool amount s1))))))))))))"

definition verify_budget :: "env \<Rightarrow> po_state \<Rightarrow> po_state" where
  "verify_budget env s =
     (case verify_budget_try env s of
        (None, s') \<Rightarrow> s'
      | (Some e, s') \<Rightarrow>
          (let error_msg = ''Error during budget verification: '' @ e
           in s'\<lparr>errors := errors s' @ [error_msg],
                 final_decision := ''ERROR'',
                 decision_reason := error_msg\<rparr>))"

subsection \<open>\<^verbatim>\<open>process_approval\<close>\<close>

definition request_approval_step ::
  "env \<Rightarrow> call option \<Rightarrow> pyval \<Rightarrow> po_state \<Rightarrow> tried" where
  "request_approval_step env send_request_tool approvers_result s =
     (case send_request_tool of
        Some srt \<Rightarrow>
          on_value (py_get approvers_result ''approvers_required'' (PList [])) s
            (\<lambda>approvers_required.
          on_value (ainvoke srt) s (\<lambda>raw_approval_request.
          (let approval_request = handle_tool_response env raw_approval_request;
               s1 = s\<lparr>approval_status :=
                        AList.update ''request_details'' approval_request (approval_status s),
                      final_decision := ''PENDING_APPROVAL''\<rparr>
           in on_value (py_join '', '' approvers_required) s1 (\<lambda>joined.
              return (s1\<lparr>decision_reason := ''Awaiting approval from: '' @ joined,
                           messages := messages s1 @
                             [''Approval requests sent to: '' @ joined]\<rparr>)))))
      | None \<Rightarrow>
          return (s\<lparr>final_decision := ''PENDING_APPROVAL'',
                     decision_reason := ''Manual approval required''\<rparr>))"

definition process_approval_try :: "env \<Rightarrow> po_state \<Rightarrow> tried" where
  "process_approval_try env s =
     (let approval_tools = get_tools_safe env ''approval''
      in on_value (dict_item (po_request s) ''amount'') s (\<lambda>amount.
         on_value (dict_item (po_request s) ''department'') s (\<lambda>department.
         on_value (tool_get approval_tools ''get_required_approvers'') s (\<lambda>get_approvers_tool.
         on_value (tool_get approval_tools ''send_approval_request'') s (\<lambda>send_request_tool.
         (case get_approvers_tool of
            None \<Rightarrow> raise (''Get approvers tool not found. Available: ''
                            @ available env approval_tools) s
          | Some gat \<Rightarrow>
         on_value (ainvoke gat) s (\<lambda>raw_approvers_result.
         (let approvers_result = handle_tool_response env raw_approvers_result
          in on_value (py_get approvers_result ''error'' (PBool False)) s (\<lambda>approvers_error.
             if truthy approvers_error
             then (let s1 = s\<lparr>final_decision := ''ERROR''\<rparr>
                   in on_value (py_get approvers_result ''message'' (PStr ''Unknown error'')) s1
                        (\<lambda>message. return (s1\<lparr>decision_reason :=
                            ''Approval check error: '' @ py_str env message\<rparr>)))
             else
             (let s1 = s\<lparr>approval_status :=
                          (case approvers_result of
                             PDict d \<Rightarrow> AList.update ''processed_at'' (PStr (now_iso env)) d
                           | _ \<Rightarrow> [(''processed_at'', PStr (now_iso env))])\<rparr>
              in on_value (py_get approvers_result ''auto_approve'' (PBool False)) s1
                   (\<lambda>auto_approve.
                 on_value (py_get approvers_result ''threshold'' (PInt 0)) s1 (\<lambda>threshold.
                 if truthy auto_approve
                 then (let s2 = s1\<lparr>final_decision := ''APPROVED''\<rparr>
                       in on_value (format_currency env amount) s2 (\<lambda>shown_amount.
                          on_value (format_currency env threshold) s2 (\<lambda>shown_threshold.
                          return (s2\<lparr>decision_reason :=
                                       ''Auto-approved: amount '' @ shown_amount
                                       @ '' below threshold '' @ shown_threshold,
                                     approval_status :=
                                       AList.update ''auto_approved'' (PBool True)
                                         (approval_status s2)\<rparr>))))
                 else request_approval_step env send_request_tool approvers_result s1
                 ))))))))))))"

definition process_approval :: "env \<Rightarrow> po_state \<Rightarrow> po_state" where
  "process_approval env s =
     (case process_approval_try env s of
        (None, s') \<Rightarrow> s'
      | (Some e, s') \<Rightarrow>
          (let error_msg = ''Error during approval processing: '' @ e
           in s'\<lparr>errors := errors s' @ [error_msg],
                 final_decision := ''ERROR'',
                 decision_reason := error_msg\<rparr>))"

subsection \<open>\<^verbatim>\<open>calculate_payment\<close>\<close>

text \<open>The \<^verbatim>\<open>try\<close> body; the \<^verbatim>\<open>finally\<close> clause is in \<open>calculate_payment\<close>.\<close>

definition calculate_payment_try :: "env \<Rightarrow> po_state \<Rightarrow> tried" where
  "calculate_payment_try env s =
     (let payment_tools = get_tools_safe env ''payment''
      in on_value (tool_get payment_tools ''recommend_payment_plan'') s (\<lambda>plan_tool.
         (case plan_tool of
            None \<Rightarrow> raise (''Payment tool 'recommend_payment_plan' not found. Available: ''
                            @ available env payment_tools) s
          | Some pt \<Rightarrow>
         (let po_id_for_calc = (if po_id s \<noteq> [] then PStr (po_id s)
                                else dict_get (po_request s) ''po_id'' PNone)
          in if \<not> truthy po_id_for_calc
             then raise ''po_id missing for payment calculation'' s
             else
             (let supplier_id = dict_get (po_request s) ''supplier_id'' PNone
              in if \<not> truthy supplier_id
                 then raise ''supplier_id missing for payment calculation'' s
                 else
                 on_value (ainvoke pt) s (\<lambda>raw_plan.
                 (let plan = handle_tool_response env raw_plan
                  in on_value (py_get plan ''error'' PNone) s (\<lambda>plan_error.
                     if truthy plan_error
                     then (let s1 = s\<lparr>final_decision := ''ERROR''\<rparr>
                           in on_value (py_get plan ''message'' PNone) s1 (\<lambda>message.
                              (let reason = ''Payment plan error: '' @ py_str env message
                               in return (s1\<lparr>decision_reason := reason,
                                              errors := errors s1 @ [reason]\<rparr>))))
                     else
                     (let s1 = s\<lparr>payment_plan := Some plan\<rparr>
                      in on_value (py_item plan ''policy'') s1 (\<lambda>policy.
                         on_value (py_item policy ''upfront_percent'') s1 (\<lambda>up_pct.
                         on_value (py_item plan ''amounts'') s1 (\<lambda>amounts.
                         on_value (py_item amounts ''upfront_amount'') s1 (\<lambda>up_amt.
                         on_value (py_item amounts ''balance_amount'') s1 (\<lambda>bal_amt.
                         on_value (py_item policy ''band'') s1 (\<lambda>band.
                         on_value (format_2f env up_pct) s1 (\<lambda>shown_pct.
                         on_value (format_currency env up_amt) s1 (\<lambda>shown_up.
                         on_value (format_currency env bal_amt) s1 (\<lambda>shown_bal.
                         return (s1\<lparr>messages := messages s1 @
                           [''Payment plan: '' @ shown_pct @ ''% upfront ('' @ shown_up
                            @ ''), balance '' @ shown_bal @ '' ['' @ py_str env band
                            @ '' risk]'']\<rparr>)))))))))))))))))))"

definition calculate_payment :: "env \<Rightarrow> po_state \<Rightarrow> po_state" where
  "calculate_payment env s =
     (let s1 = (case calculate_payment_try env s of
                  (None, s') \<Rightarrow> s'
                | (Some e, s') \<Rightarrow>
                    (let msg = ''Error during payment calculation: '' @ e
                     in s'\<lparr>errors := errors s' @ [msg],
                           final_decision := ''ERROR'',
                           decision_reason := msg\<rparr>))
      in s1\<lparr>payment_attempted := True\<rparr>)"

subsection \<open>\<^verbatim>\<open>send_notifications\<close>\<close>

text \<open>
  The arguments of a call are evaluated before the call: the text of each notification
  formats \<^verbatim>\<open>po_request['amount']\<close>, which raises when the key is missing or the value
  is not a number.
\<close>

definition send_notifications_try :: "env \<Rightarrow> po_state \<Rightarrow> tried" where
  "send_notifications_try env s =
     (let notification_tools = get_tools_safe env ''notification'';
          decision = final_decision s
      in on_value (tool_get notification_tools ''send_email_notification'') s (\<lambda>email_tool.
         on_value (tool_get notification_tools ''send_slack_notification'') s (\<lambda>slack_tool.
         on_value (case email_tool of
                     None \<Rightarrow> Inr []
                   | Some et \<Rightarrow>
                      (case dict_item (po_request s) ''amount'' of
                         Inl e \<Rightarrow> Inl e
                       | Inr amount \<Rightarrow>
                          (case format_currency env amount of
                             Inl e \<Rightarrow> Inl e
                           | Inr shown \<Rightarrow>
                              (case ainvoke et of
                                 Inl e \<Rightarrow> Inl e
                               | Inr raw_email_result \<Rightarrow>
                                   Inr [handle_tool_response env raw_email_result])))) s
           (\<lambda>after_email.
         on_value (case slack_tool of
                     None \<Rightarrow> Inr after_email
                   | Some st \<Rightarrow>
                      (case dict_item (po_request s) ''amount'' of
                         Inl e \<Rightarrow> Inl e
                       | Inr amount \<Rightarrow>
                          (case format_currency env amount of
                             Inl e \<Rightarrow> Inl e
                           | Inr shown \<Rightarrow>
                              (case ainvoke st of
                                 Inl e \<Rightarrow> Inl e
                               | Inr raw_slack_result \<Rightarrow>
                                   Inr (after_email
                                        @ [handle_tool_response env raw_slack_result]))))) s
           (\<lambda>notifs.
         return (s\<lparr>notifications := notifs,
                    messages := messages s @
                      [''Notifications sent for PO '' @ po_id s]\<rparr>))))))"

definition send_notifications :: "env \<Rightarrow> po_state \<Rightarrow> po_state" where
  "send_notifications env s =
     (case send_notifications_try env s of
        (None, s') \<Rightarrow> s'
      | (Some e, s') \<Rightarrow> s'\<lparr>errors := errors s' @ [''Error sending notifications: '' @ e]\<rparr>)"

section \<open>The router and the graph\<close>

text \<open>\<^verbatim>\<open>should_continue\<close>: \<^verbatim>\<open>state.get(k)\<close> is tested for truth.\<close>

definition should_continue :: "po_state \<Rightarrow> string" where
  "should_continue s =
     (if supplier_validation s = [] then ''check_supplier''
      else if budget_check s = [] then ''verify_budget''
      else if approval_status s = [] then ''process_approval''
      else if \<not> (case payment_plan s of None \<Rightarrow> False | Some plan \<Rightarrow> truthy plan)
              \<and> \<not> payment_attempted s
      then ''calculate_payment''
      else if final_decision s \<noteq> [] \<and> notifications s = [] then ''send_notifications''
      else ''END'')"

text \<open>The nodes of \<^verbatim>\<open>_build_workflow\<close> and the keys of each node's conditional edge map.\<close>

definition run_node :: "env \<Rightarrow> string \<Rightarrow> po_state \<Rightarrow> po_state" where
  "run_node env node s =
     (if node = ''validate_request'' then validate_request env s
      else if node = ''check_supplier'' then check_supplier env s
      else if node = ''verify_budget'' then verify_budget env s
      else if node = ''calculate_payment'' then calculate_payment env s
      else if node = ''process_approval'' then process_approval env s
      else if node = ''send_notifications'' then send_notifications env s
      else s)"

definition edges :: "string \<Rightarrow> string list" where
  "edges node =
     (if node = ''validate_request''
        then [''check_supplier'', ''calculate_payment'', ''send_notifications'', ''END'']
      else if node = ''check_supplier''
        then [''verify_budget'', ''calculate_payment'', ''send_notifications'', ''END'']
      else if node = ''verify_budget''
        then [''process_approval'', ''calculate_payment'', ''send_notifications'', ''END'']
      else if node = ''process_approval''
        then [''calculate_payment'', ''send_notifications'', ''END'']
      else if node = ''calculate_payment''
        then [''send_notifications'', ''END'']
      else if node = ''send_notifications''
        then [''END'']
      else [])"

text \<open>
  The graph is run by the LangGraph library, which is not part of the repository. The
  model takes three things from it: a node's handler runs and its returned state is the
  new state; the router's answer is then looked up in that node's edge map, and an answer
  without an entry cannot be routed, which ends the run with an exception;
  the number of steps of a run is limited, so a run that is not over after \<open>n\<close> steps
  ends with an exception as well.
\<close>

datatype run = Ended po_state | NoEdge string string po_state | StepLimit po_state

fun run_graph :: "nat \<Rightarrow> env \<Rightarrow> string \<Rightarrow> po_state \<Rightarrow> run" where
  "run_graph 0 env node s = StepLimit s"
| "run_graph (Suc n) env node s =
     (let s' = run_node env node s;
          answer = should_continue s'
      in if answer \<notin> set (edges node) then NoEdge node answer s'
         else if answer = ''END'' then Ended s'
         else run_graph n env answer s')"

text \<open>
  The router followed without edge maps, as the specification describes the
  orchestrator: ask the router, run the stage it names, until it answers \<^verbatim>\<open>END\<close>.
  \<open>None\<close>: not over after \<open>n\<close> stages.
\<close>

fun route_loop :: "nat \<Rightarrow> env \<Rightarrow> po_state \<Rightarrow> po_state option" where
  "route_loop 0 env s = (if should_continue s = ''END'' then Some s else None)"
| "route_loop (Suc n) env s =
     (if should_continue s = ''END'' then Some s
      else route_loop n env (run_node env (should_continue s) s))"

text \<open>\<^verbatim>\<open>initial_state\<close> of \<^verbatim>\<open>process_po\<close>; its first message formats the amount.\<close>

definition initial_state :: "env \<Rightarrow> pydict \<Rightarrow> string + po_state" where
  "initial_state env request =
     (case format_2f env (dict_get request ''amount'' (PInt 0)) of
        Inl e \<Rightarrow> Inl e
      | Inr shown \<Rightarrow>
          Inr \<lparr>messages = [''Process PO for $'' @ shown],
               po_request = request,
               po_id = [],
               supplier_validation = [],
               budget_check = [],
               approval_status = [],
               payment_plan = None,
               payment_attempted = False,
               notifications = [],
               final_decision = [],
               decision_reason = [],
               errors = []\<rparr>)"

section \<open>Predicates for stating properties of requests\<close>

definition amount_positive :: "pydict \<Rightarrow> bool" where
  "amount_positive r =
     (\<exists>a x. map_of r ''amount'' = Some a \<and> num_value a = Some x \<and> 0 < x)"

definition items_nonempty_list :: "pydict \<Rightarrow> bool" where
  "items_nonempty_list r = (\<exists>xs. map_of r ''items'' = Some (PList xs) \<and> xs \<noteq> [])"

section \<open>Payment server: predicates on query results and sample databases\<close>




text \<open>
  What the aggregate queries return for a supplier the tables do not know: every
  \<^verbatim>\<open>COALESCE(SUM(...), 0)\<close> and \<^verbatim>\<open>COUNT(*)\<close> is 0, every plain \<^verbatim>\<open>SUM\<close> is NULL.
\<close>

definition no_history :: risk_rows where
  "no_history =
     \<lparr>ordered_q = Row (Some 0), received_q = Row (Some 0),
      ontime_q = Row (Some 0, None), quality_q = Row (Some 0, None),
      inv_q = Row (Some 0, None), pay_q = Row (Some 0, None)\<rparr>"

text \<open>The demo database: purchase orders 1..4, no deliveries, invoices or payments yet.\<close>

definition demo_db :: database where
  "demo_db =
     \<lparr>missing_env = [],
      exists_q = (\<lambda>k. if 1 \<le> k \<and> k \<le> 4 then Row () else NoRow),
      line_q = (\<lambda>k. Row (Some 1000)),
      head_q = (\<lambda>k. if 1 \<le> k \<and> k \<le> 4
                 then Row \<lparr>h_supplier_id = Some ''SUP001'', h_currency = Some ''INR'',
                           h_exchange_rate = Some 1, h_tax_amount = Some 180,
                           h_freight_amount = Some 20\<rparr>
                 else NoRow),
      history = (\<lambda>s. no_history)\<rparr>"


section \<open>Sample requests, collaborators and states\<close>

text \<open>A request for 500 from supplier SUP001, and the same request with amount 0.\<close>

definition sample_request :: pydict where
  "sample_request =
     [(''supplier_id'', PStr ''SUP001''), (''amount'', PInt 500),
      (''department'', PStr ''IT''), (''items'', PList [PStr ''laptop''])]"

definition zero_amount_request :: pydict where
  "zero_amount_request =
     [(''supplier_id'', PStr ''SUP001''), (''amount'', PInt 0),
      (''department'', PStr ''IT''), (''items'', PList [PStr ''laptop''])]"

text \<open>
  An environment around given servers. The printing functions are placeholders: they
  only produce message text.
\<close>

definition env_of :: "(string \<Rightarrow> tools_reply) \<Rightarrow> env" where
  "env_of servers =
     \<lparr>get_tools = servers,
      json_loads = (\<lambda>s. None),
      now_iso = ''2025-08-22T15:17:55'',
      new_po_id = ''PO-20250822151755'',
      llm_reply = None,
      py_str = (\<lambda>v. case v of PStr s \<Rightarrow> s | _ \<Rightarrow> ''...''),
      type_str = (\<lambda>v. ''...''),
      fmt = (\<lambda>spec x. ''#'')\<rparr>"

definition supplier_ok :: tools_reply where
  "supplier_ok = GetList
     [(Some ''validate_supplier'',
         CallReturns (PDict [(''valid'', PBool True), (''message'', PStr ''validated'')])),
      (Some ''check_supplier_capacity'',
         CallReturns (PDict [(''capacity_ok'', PBool True), (''max_capacity'', PInt 100000)]))]"

text \<open>The supplier directory does not know the supplier: a business-negative answer.\<close>

definition supplier_unknown :: tools_reply where
  "supplier_unknown = GetList
     [(Some ''validate_supplier'',
         CallReturns (PDict [(''valid'', PBool False), (''message'', PStr ''Supplier not found''),
                             (''supplier'', PNone)])),
      (Some ''check_supplier_capacity'',
         CallReturns (PDict [(''capacity_ok'', PBool False), (''message'', PStr ''Supplier not found''),
                             (''max_capacity'', PInt 0)]))]"

text \<open>
  The supplier service is down: the call returns a text that is not JSON, which
  \<^verbatim>\<open>_handle_tool_response\<close> turns into a response with \<^verbatim>\<open>error: true\<close>.
\<close>

definition supplier_failing :: tools_reply where
  "supplier_failing = GetList
     [(Some ''validate_supplier'', CallReturns (PStr ''connection lost'')),
      (Some ''check_supplier_capacity'',
         CallReturns (PDict [(''capacity_ok'', PBool True), (''max_capacity'', PInt 100000)]))]"

definition budget_ok :: tools_reply where
  "budget_ok = GetList
     [(Some ''check_budget_availability'',
         CallReturns (PDict [(''available'', PBool True), (''amount_available'', PInt 90000)])),
      (Some ''reserve_budget'',
         CallReturns (PDict [(''reserved'', PBool True), (''amount_reserved'', PInt 500)]))]"

text \<open>The budget service is down in the same way.\<close>

definition budget_failing :: tools_reply where
  "budget_failing = GetList
     [(Some ''check_budget_availability'', CallReturns (PStr ''connection lost''))]"

definition approval_auto :: tools_reply where
  "approval_auto = GetList
     [(Some ''get_required_approvers'',
         CallReturns (PDict [(''approvers_required'', PList []), (''auto_approve'', PBool True),
                             (''threshold'', PInt 1000)])),
      (Some ''send_approval_request'',
         CallReturns (PDict [(''requests_sent'', PInt 0)]))]"

text \<open>The approval service answers with an explicit \<^verbatim>\<open>error: true\<close>.\<close>

definition approval_failing :: tools_reply where
  "approval_failing = GetList
     [(Some ''get_required_approvers'',
         CallReturns (PDict [(''error'', PBool True), (''message'', PStr ''connection lost'')]))]"

definition payment_ok :: tools_reply where
  "payment_ok = GetList
     [(Some ''recommend_payment_plan'',
         CallReturns (PDict
           [(''policy'', PDict [(''band'', PStr ''LOW''), (''upfront_percent'', PFloat 100)]),
            (''amounts'', PDict [(''upfront_amount'', PFloat 1200),
                                 (''balance_amount'', PFloat 0)])]))]"

definition notification_ok :: tools_reply where
  "notification_ok = GetList
     [(Some ''send_email_notification'', CallReturns (PDict [(''sent'', PBool True)])),
      (Some ''send_slack_notification'', CallReturns (PDict [(''sent'', PBool True)]))]"

text \<open>
  Servers by name, with the supplier, budget, approval and notification servers given;
  a server that is not named cannot be reached.
\<close>

definition servers ::
  "tools_reply \<Rightarrow> tools_reply \<Rightarrow> tools_reply \<Rightarrow> tools_reply \<Rightarrow> string \<Rightarrow> tools_reply" where
  "servers supplier budget approval notification name =
     (if name = ''supplier'' then supplier
      else if name = ''budget'' then budget
      else if name = ''approval'' then approval
      else if name = ''payment'' then payment_ok
      else if name = ''notification'' then notification
      else GetRaises ''unknown server'')"

text \<open>Every collaborator answers well.\<close>

definition all_well :: env where
  "all_well = env_of (servers supplier_ok budget_ok approval_auto notification_ok)"

text \<open>The supplier is unknown; everything else answers well.\<close>

definition unknown_supplier_env :: env where
  "unknown_supplier_env = env_of (servers supplier_unknown budget_ok approval_auto notification_ok)"

text \<open>Every decision service fails: its response carries \<^verbatim>\<open>error: true\<close>.\<close>

definition failing_env :: env where
  "failing_env = env_of (servers supplier_failing budget_failing approval_failing notification_ok)"

text \<open>Every collaborator answers well, but the notification server offers no tools.\<close>

definition no_notification_tools :: env where
  "no_notification_tools = env_of (servers supplier_ok budget_ok approval_auto (GetList []))"

text \<open>The state \<^verbatim>\<open>process_po\<close> starts from, for the sample request.\<close>

definition start :: po_state where
  "start =
     \<lparr>messages = [''Process PO for $#''],
      po_request = sample_request,
      po_id = [],
      supplier_validation = [],
      budget_check = [],
      approval_status = [],
      payment_plan = None,
      payment_attempted = False,
      notifications = [],
      final_decision = [],
      decision_reason = [],
      errors = []\<rparr>"

text \<open>A state in which every stage but the notification has recorded its result.\<close>

definition awaiting_notification :: "po_state \<Rightarrow> bool" where
  "awaiting_notification s =
     (supplier_validation s \<noteq> [] \<and> budget_check s \<noteq> [] \<and> approval_status s \<noteq> []
      \<and> payment_attempted s \<and> final_decision s \<noteq> [] \<and> notifications s = [])"

text \<open>A state after the approval stage in which an earlier stage has rejected the order.\<close>

definition rejected_unpaid :: po_state where
  "rejected_unpaid =
     start\<lparr>supplier_validation := [(''checked_at'', PStr ''2025-08-22T15:17:55'')],
           budget_check := [(''checked_at'', PStr ''2025-08-22T15:17:55'')],
           approval_status := [(''processed_at'', PStr ''2025-08-22T15:17:55'')],
           final_decision := ''REJECTED''\<rparr>"

text \<open>
  The sample request after validation, supplier check, budget check, approval and payment
  calculation, when the notification server offers no tools.
\<close>

definition paid :: po_state where
  "paid =
     calculate_payment no_notification_tools
       (process_approval no_notification_tools
         (verify_budget no_notification_tools
           (check_supplier no_notification_tools
             (validate_request no_notification_tools start))))"

section \<open>Properties of the upfront policy\<close>

lemma upfront_very_high: "0 \<le> s \<Longrightarrow> s < 40 \<Longrightarrow> upfront_percent s = s * 30 / 39"
  by (simp add: upfront_percent_def clamp_def lerp_def Let_def)

lemma upfront_high: "40 \<le> s \<Longrightarrow> s < 60 \<Longrightarrow> upfront_percent s = 40 + (s - 40) * 20 / 19"
  by (simp add: upfront_percent_def clamp_def lerp_def Let_def)

lemma upfront_medium: "60 \<le> s \<Longrightarrow> s < 80 \<Longrightarrow> upfront_percent s = 70 + (s - 60) * 15 / 19"
  by (simp add: upfront_percent_def clamp_def lerp_def Let_def)

lemma upfront_low: "80 \<le> s \<Longrightarrow> upfront_percent s = 100"
  by (simp add: upfront_percent_def clamp_def lerp_def Let_def)

lemma upfront_below_zero: "s \<le> 0 \<Longrightarrow> upfront_percent s = 0"
  by (simp add: upfront_percent_def clamp_def lerp_def Let_def)

lemma upfront_bounds: "0 \<le> upfront_percent s \<and> upfront_percent s \<le> 100"
proof -
  consider "s \<le> 0" | "0 \<le> s \<and> s < 40" | "40 \<le> s \<and> s < 60" | "60 \<le> s \<and> s < 80" | "80 \<le> s"
    by linarith
  then show ?thesis
  proof cases
    case 1 then show ?thesis by (simp add: upfront_below_zero)
  next
    case 2 then show ?thesis by (simp add: upfront_very_high)
  next
    case 3 then show ?thesis by (simp add: upfront_high)
  next
    case 4 then show ?thesis by (simp add: upfront_medium)
  next
    case 5 then show ?thesis by (simp add: upfront_low)
  qed
qed

lemma upfront_mono:
  assumes "s \<le> t"
  shows "upfront_percent s \<le> upfront_percent t"
proof -
  consider "s \<le> 0" | "0 \<le> s \<and> s < 40" | "40 \<le> s \<and> s < 60" | "60 \<le> s \<and> s < 80" | "80 \<le> s"
    by linarith
  then show ?thesis
  proof cases
    case 1
    then show ?thesis using upfront_bounds [of t] by (simp add: upfront_below_zero)
  next
    case 2
    consider "t < 40" | "40 \<le> t \<and> t < 60" | "60 \<le> t \<and> t < 80" | "80 \<le> t"
      by linarith
    then show ?thesis using 2 assms
      by cases (simp_all add: upfront_very_high upfront_high upfront_medium upfront_low field_simps)
  next
    case 3
    consider "t < 60" | "60 \<le> t \<and> t < 80" | "80 \<le> t"
      by linarith
    then show ?thesis using 3 assms
      by cases (simp_all add: upfront_high upfront_medium upfront_low field_simps)
  next
    case 4
    consider "t < 80" | "80 \<le> t"
      by linarith
    then show ?thesis using 4 assms
      by cases (simp_all add: upfront_medium upfront_low field_simps)
  next
    case 5
    then show ?thesis using assms by (simp add: upfront_low)
  qed
qed

lemma upfront_anchors:
  "upfront_percent 0 = 0 \<and> upfront_percent 80 = 100 \<and> upfront_percent 100 = 100
   \<and> risk_band 60 = MEDIUM \<and> upfront_percent 60 = 70"
  by (simp add: upfront_percent_def clamp_def lerp_def Let_def risk_band_def)

lemma upfront_60_reported: "py_round (upfront_percent 60) 2 = 70"
  by code_simp

text \<open>
  Claim C5. The upfront percentage never decreases when the score grows and always lies
  in [0, 100] (for every score, so in particular on [0, 100]); it is 0 at score 0 and
  100 at scores 80 and 100; a score of exactly 60 is in band MEDIUM and gets 70, which
  the plan reports as 70.00.
\<close>

theorem upfront_percent_monotone_bounded:
  "s \<le> t \<Longrightarrow>
     upfront_percent s \<le> upfront_percent t
     \<and> 0 \<le> upfront_percent s \<and> upfront_percent s \<le> 100
     \<and> upfront_percent 0 = 0 \<and> upfront_percent 80 = 100 \<and> upfront_percent 100 = 100
     \<and> risk_band 60 = MEDIUM \<and> upfront_percent 60 = 70
     \<and> py_round (upfront_percent 60) 2 = 70"
  using upfront_mono [of s t] upfront_bounds [of s] upfront_anchors upfront_60_reported
  by simp

theorem upfront_percent_monotone_bounded_witness:
  "(59::rat) \<le> 60 \<and> upfront_percent 59 \<le> upfront_percent 60
   \<and> upfront_percent 59 = 60 \<and> upfront_percent 60 = 70"
proof -
  have h: "(59::rat) \<le> 60" by simp
  have v: "upfront_percent 59 = 60" by (simp add: upfront_high)
  show ?thesis using upfront_percent_monotone_bounded [OF h] v by simp
qed

section \<open>Properties of rounding\<close>








section \<open>Properties of the payment plan\<close>




section \<open>Properties of the risk score\<close>




















section \<open>Failures of the risk tool\<close>






section \<open>Resolving references at the payment boundary\<close>

text \<open>
  Claim C9 at a timestamp-style number. \<^verbatim>\<open>_map_request_to_po\<close> returns every reference
  that \<^verbatim>\<open>int()\<close> accepts as it is, before it looks at the static mapping; so the
  reference 20250822151755 with supplier SUP001 is not resolved to key 1, and the tool
  answers that this number is not in the table of purchase orders. A reference written
  \<^verbatim>\<open>PO-...\<close> is mapped, and is reported as unresolvable when the supplier has no entry.
\<close>

theorem timestamp_reference_not_mapped:
  "map_request_to_po (PoInt 20250822151755) (Some ''SUP001'') = Some 20250822151755
   \<and> map_request_to_po (PoStr ''20250822151755'') (Some ''SUP001'') = Some 20250822151755
   \<and> looks_like_request_code (PoInt 20250822151755)
   \<and> map_of STATIC_PO_MAP ''SUP001'' = Some 1
   \<and> recommend_payment_plan demo_db (PoInt 20250822151755) (Some ''SUP001'')
       = Inl (NotInPurchaseOrders 20250822151755)
   \<and> map_request_to_po (PoStr ''PO-20250822151755'') (Some ''SUP001'') = Some 1
   \<and> recommend_payment_plan demo_db (PoStr ''PO-20250822151755'') (Some ''SUP004'')
       = Inl (CannotResolve (PoStr ''PO-20250822151755''))"
  by code_simp

section \<open>Request validation\<close>

lemma find_required:
  "find P required_fields =
     (if P ''supplier_id'' then Some ''supplier_id''
      else if P ''amount'' then Some ''amount''
      else if P ''department'' then Some ''department''
      else if P ''items'' then Some ''items'' else None)"
  by (simp add: required_fields_def)

lemma all_required:
  "(\<forall>f \<in> set required_fields. P f)
     \<longleftrightarrow> P ''supplier_id'' \<and> P ''amount'' \<and> P ''department'' \<and> P ''items''"
  by (simp add: required_fields_def)

lemma ex_required:
  "(\<exists>f \<in> set required_fields. P f)
     \<longleftrightarrow> P ''supplier_id'' \<or> P ''amount'' \<or> P ''department'' \<or> P ''items''"
  by (simp add: required_fields_def)

lemma field_missing_iff:
  "field_missing r f \<longleftrightarrow> map_of r f = None \<or> (\<exists>v. map_of r f = Some v \<and> \<not> truthy v)"
  by (simp add: field_missing_def split: option.splits)

lemma field_present_iff:
  "\<not> field_missing r f \<longleftrightarrow> (\<exists>v. map_of r f = Some v \<and> truthy v)"
  by (simp add: field_missing_def split: option.splits)

lemma amount_check:
  "\<not> field_missing r ''amount'' \<Longrightarrow>
   (case num_value (field_value r ''amount'') of None \<Rightarrow> True | Some x \<Rightarrow> x \<le> 0)
     \<longleftrightarrow> \<not> amount_positive r"
  by (auto simp: field_missing_def field_value_def amount_positive_def split: option.splits)

lemma items_check:
  "\<not> field_missing r ''items'' \<Longrightarrow>
   (\<not> is_list (field_value r ''items'') \<or> py_len (field_value r ''items'') = 0)
     \<longleftrightarrow> \<not> items_nonempty_list r"
proof -
  assume "\<not> field_missing r ''items''"
  then obtain v where v: "map_of r ''items'' = Some v" "truthy v"
    using field_present_iff by blast
  then show ?thesis
    by (cases v) (simp_all add: field_value_def items_nonempty_list_def)
qed

lemma validate_cases:
  "validate_po_request r =
     (if field_missing r ''supplier_id'' then (False, ''Missing required field: supplier_id'')
      else if field_missing r ''amount'' then (False, ''Missing required field: amount'')
      else if field_missing r ''department'' then (False, ''Missing required field: department'')
      else if field_missing r ''items'' then (False, ''Missing required field: items'')
      else if \<not> amount_positive r then (False, ''Amount must be a positive number'')
      else if \<not> items_nonempty_list r then (False, ''Items must be a non-empty list'')
      else (True, ''Valid''))"
  using amount_check [of r] items_check [of r]
  by (simp add: validate_po_request_def find_required)

lemma valid_iff:
  "fst (validate_po_request r) \<longleftrightarrow>
     (\<forall>f \<in> set required_fields. \<not> field_missing r f)
     \<and> amount_positive r \<and> items_nonempty_list r"
  by (simp add: validate_cases all_required)

lemma missing_message_iff:
  "(\<exists>f \<in> set required_fields.
       validate_po_request r = (False, ''Missing required field: '' @ f))
     \<longleftrightarrow> (\<exists>f \<in> set required_fields. field_missing r f)"
  by (simp add: validate_cases ex_required)

lemma amount_message_iff:
  "validate_po_request r = (False, ''Amount must be a positive number'')
     \<longleftrightarrow> (\<forall>f \<in> set required_fields. \<not> field_missing r f) \<and> \<not> amount_positive r"
  by (simp add: validate_cases all_required)

lemma zero_amount_missing:
  "\<not> field_missing r ''supplier_id'' \<Longrightarrow>
   map_of r ''amount'' = Some (PInt 0) \<or> map_of r ''amount'' = Some (PFloat 0) \<Longrightarrow>
   validate_po_request r = (False, ''Missing required field: amount'')"
  by (auto simp: validate_cases field_missing_def)

text \<open>
  Claim C10. A request is valid exactly when each of the four required fields is
  present with a truthy value, the amount is a number (an \<^verbatim>\<open>int\<close> or a \<^verbatim>\<open>float\<close>;
  Python counts \<^verbatim>\<open>bool\<close> as \<^verbatim>\<open>int\<close>) greater than 0, and the items are a
  non-empty list. The message \<^verbatim>\<open>Missing required field\<close> is returned exactly when some
  required field is absent or falsy; in particular an amount of 0, after a good supplier
  id, is reported as the missing field \<^verbatim>\<open>amount\<close>. The message about a positive number
  is returned exactly when all four fields are present and truthy and the amount is not
  a positive number.
\<close>

theorem validate_po_request_valid_iff:
  "(fst (validate_po_request r) \<longleftrightarrow>
      (\<forall>f \<in> set required_fields. \<exists>v. map_of r f = Some v \<and> truthy v)
      \<and> (\<exists>a x. map_of r ''amount'' = Some a \<and> num_value a = Some x \<and> 0 < x)
      \<and> (\<exists>xs. map_of r ''items'' = Some (PList xs) \<and> xs \<noteq> []))
   \<and> ((\<exists>f \<in> set required_fields.
          validate_po_request r = (False, ''Missing required field: '' @ f))
        \<longleftrightarrow> (\<exists>f \<in> set required_fields.
               map_of r f = None \<or> (\<exists>v. map_of r f = Some v \<and> \<not> truthy v)))
   \<and> ((\<exists>v. map_of r ''supplier_id'' = Some v \<and> truthy v)
        \<and> (map_of r ''amount'' = Some (PInt 0) \<or> map_of r ''amount'' = Some (PFloat 0))
        \<longrightarrow> validate_po_request r = (False, ''Missing required field: amount''))
   \<and> (validate_po_request r = (False, ''Amount must be a positive number'')
        \<longleftrightarrow> (\<forall>f \<in> set required_fields. \<exists>v. map_of r f = Some v \<and> truthy v)
          \<and> \<not> (\<exists>a x. map_of r ''amount'' = Some a \<and> num_value a = Some x \<and> 0 < x))"
proof -
  have 1: "fst (validate_po_request r) \<longleftrightarrow>
      (\<forall>f \<in> set required_fields. \<exists>v. map_of r f = Some v \<and> truthy v)
      \<and> (\<exists>a x. map_of r ''amount'' = Some a \<and> num_value a = Some x \<and> 0 < x)
      \<and> (\<exists>xs. map_of r ''items'' = Some (PList xs) \<and> xs \<noteq> [])"
    using valid_iff [of r]
    by (simp only: field_present_iff amount_positive_def items_nonempty_list_def)
  have 2: "(\<exists>f \<in> set required_fields.
          validate_po_request r = (False, ''Missing required field: '' @ f))
        \<longleftrightarrow> (\<exists>f \<in> set required_fields.
               map_of r f = None \<or> (\<exists>v. map_of r f = Some v \<and> \<not> truthy v))"
    using missing_message_iff [of r] by (simp only: field_missing_iff)
  have 3: "(\<exists>v. map_of r ''supplier_id'' = Some v \<and> truthy v)
        \<and> (map_of r ''amount'' = Some (PInt 0) \<or> map_of r ''amount'' = Some (PFloat 0))
        \<longrightarrow> validate_po_request r = (False, ''Missing required field: amount'')"
    using zero_amount_missing [of r] by (simp only: field_present_iff) blast
  have 4: "validate_po_request r = (False, ''Amount must be a positive number'')
        \<longleftrightarrow> (\<forall>f \<in> set required_fields. \<exists>v. map_of r f = Some v \<and> truthy v)
          \<and> \<not> (\<exists>a x. map_of r ''amount'' = Some a \<and> num_value a = Some x \<and> 0 < x)"
    using amount_message_iff [of r] by (simp only: field_present_iff amount_positive_def)
  from 1 2 3 4 show ?thesis by blast
qed

theorem validate_po_request_valid_iff_witness:
  "map_of zero_amount_request ''supplier_id'' = Some (PStr ''SUP001'')
   \<and> truthy (PStr ''SUP001'')
   \<and> map_of zero_amount_request ''amount'' = Some (PInt 0)
   \<and> validate_po_request zero_amount_request = (False, ''Missing required field: amount'')
   \<and> fst (validate_po_request sample_request)"
proof -
  have a: "map_of zero_amount_request ''supplier_id'' = Some (PStr ''SUP001'')"
    and b: "map_of zero_amount_request ''amount'' = Some (PInt 0)"
    by (simp_all add: zero_amount_request_def)
  have c: "\<forall>f \<in> set required_fields. \<exists>v. map_of sample_request f = Some v \<and> truthy v"
    by (simp add: required_fields_def sample_request_def)
  have d: "\<exists>a x. map_of sample_request ''amount'' = Some a \<and> num_value a = Some x \<and> 0 < x"
    by (simp add: sample_request_def)
  have e: "\<exists>xs. map_of sample_request ''items'' = Some (PList xs) \<and> xs \<noteq> []"
    by (simp add: sample_request_def)
  from validate_po_request_valid_iff [of zero_amount_request] a b
  have "validate_po_request zero_amount_request = (False, ''Missing required field: amount'')"
    by simp
  moreover from validate_po_request_valid_iff [of sample_request] c d e
  have "fst (validate_po_request sample_request)" by blast
  ultimately show ?thesis using a b by simp
qed

section \<open>The router\<close>

text \<open>
  Claim C3. \<^verbatim>\<open>should_continue\<close> is a function of the state alone, with exactly one of
  six answers, and it applies the six rules in order. A result is recorded when its
  value in the state is truthy. Rule 4 does not look at the decision: whatever
  \<^verbatim>\<open>final_decision\<close> is, the payment stage is scheduled when no plan is recorded and
  payment has not been attempted.
\<close>

theorem should_continue_rules:
  "(supplier_validation s = [] \<longrightarrow> should_continue s = ''check_supplier'')
   \<and> (supplier_validation s \<noteq> [] \<and> budget_check s = []
        \<longrightarrow> should_continue s = ''verify_budget'')
   \<and> (supplier_validation s \<noteq> [] \<and> budget_check s \<noteq> [] \<and> approval_status s = []
        \<longrightarrow> should_continue s = ''process_approval'')
   \<and> (supplier_validation s \<noteq> [] \<and> budget_check s \<noteq> [] \<and> approval_status s \<noteq> []
        \<and> (payment_plan s = None \<or> (\<exists>p. payment_plan s = Some p \<and> \<not> truthy p))
        \<and> \<not> payment_attempted s
        \<longrightarrow> should_continue s = ''calculate_payment''
            \<and> should_continue (s\<lparr>final_decision := d\<rparr>) = ''calculate_payment'')
   \<and> (supplier_validation s \<noteq> [] \<and> budget_check s \<noteq> [] \<and> approval_status s \<noteq> []
        \<and> ((\<exists>p. payment_plan s = Some p \<and> truthy p) \<or> payment_attempted s)
        \<and> final_decision s \<noteq> [] \<and> notifications s = []
        \<longrightarrow> should_continue s = ''send_notifications'')
   \<and> (supplier_validation s \<noteq> [] \<and> budget_check s \<noteq> [] \<and> approval_status s \<noteq> []
        \<and> ((\<exists>p. payment_plan s = Some p \<and> truthy p) \<or> payment_attempted s)
        \<and> (final_decision s = [] \<or> notifications s \<noteq> [])
        \<longrightarrow> should_continue s = ''END'')
   \<and> should_continue s \<in> {''check_supplier'', ''verify_budget'', ''process_approval'',
          ''calculate_payment'', ''send_notifications'', ''END''}
   \<and> (s' = s \<longrightarrow> should_continue s' = should_continue s)"
  by (cases "payment_plan s") (auto simp: should_continue_def)

theorem should_continue_rules_witness:
  "supplier_validation rejected_unpaid \<noteq> [] \<and> budget_check rejected_unpaid \<noteq> []
   \<and> approval_status rejected_unpaid \<noteq> [] \<and> payment_plan rejected_unpaid = None
   \<and> \<not> payment_attempted rejected_unpaid \<and> final_decision rejected_unpaid = ''REJECTED''
   \<and> should_continue rejected_unpaid = ''calculate_payment''"
  using should_continue_rules [of rejected_unpaid "''REJECTED''" rejected_unpaid]
  by (simp add: rejected_unpaid_def start_def)

section \<open>What the stage handlers do to the decision\<close>

text \<open>
  Rules that follow the shape of a \<^verbatim>\<open>try\<close> body: the decision after it lies in a
  set \<open>A\<close> when it does so on every path, raising or returning.
\<close>

lemma on_value_in:
  assumes "\<And>v. final_decision (snd (k v)) \<in> A"
    and "final_decision s \<in> A"
  shows "final_decision (snd (on_value r s k)) \<in> A"
  using assms by (cases r) (simp_all add: on_value_def)

lemma if_in:
  assumes "c \<Longrightarrow> final_decision (snd a) \<in> A"
    and "\<not> c \<Longrightarrow> final_decision (snd b) \<in> A"
  shows "final_decision (snd (if c then a else b)) \<in> A"
  using assms by simp

lemma option_in:
  assumes "final_decision (snd a) \<in> A"
    and "\<And>x. final_decision (snd (f x)) \<in> A"
  shows "final_decision (snd (case t of None \<Rightarrow> a | Some x \<Rightarrow> f x)) \<in> A"
  using assms by (cases t) simp_all

lemma raise_in: "final_decision s \<in> A \<Longrightarrow> final_decision (snd (raise e s)) \<in> A"
  by (simp add: raise_def)

lemma return_in: "final_decision s \<in> A \<Longrightarrow> final_decision (snd (return s)) \<in> A"
  by (simp add: return_def)

lemmas decision_in = on_value_in if_in option_in raise_in return_in

text \<open>The same for the paths that return: a raising path ends in the handler's \<^verbatim>\<open>except\<close>.\<close>

lemma on_value_returns_in:
  assumes "\<And>v. fst (k v) = None \<longrightarrow> final_decision (snd (k v)) \<in> A"
  shows "fst (on_value r s k) = None \<longrightarrow> final_decision (snd (on_value r s k)) \<in> A"
  using assms by (cases r) (simp_all add: on_value_def)

lemma if_returns_in:
  assumes "c \<Longrightarrow> fst a = None \<longrightarrow> final_decision (snd a) \<in> A"
    and "\<not> c \<Longrightarrow> fst b = None \<longrightarrow> final_decision (snd b) \<in> A"
  shows "fst (if c then a else b) = None
         \<longrightarrow> final_decision (snd (if c then a else b)) \<in> A"
  using assms by simp

lemma option_returns_in:
  assumes "fst a = None \<longrightarrow> final_decision (snd a) \<in> A"
    and "\<And>x. fst (f x) = None \<longrightarrow> final_decision (snd (f x)) \<in> A"
  shows "fst (case t of None \<Rightarrow> a | Some x \<Rightarrow> f x) = None
         \<longrightarrow> final_decision (snd (case t of None \<Rightarrow> a | Some x \<Rightarrow> f x)) \<in> A"
  using assms by (cases t) simp_all

lemma raise_returns_in:
  "fst (raise e s) = None \<longrightarrow> final_decision (snd (raise e s)) \<in> A"
  by (simp add: raise_def)

lemma return_returns_in:
  "final_decision s \<in> A \<Longrightarrow>
   fst (return s) = None \<longrightarrow> final_decision (snd (return s)) \<in> A"
  by (simp add: return_def)

lemmas returns_in = on_value_returns_in if_returns_in option_returns_in raise_returns_in
  return_returns_in

lemma send_notifications_try_decision:
  "final_decision (snd (send_notifications_try env s)) \<in> {final_decision s}"
  unfolding send_notifications_try_def Let_def
  by (intro decision_in) simp_all

lemma send_notifications_decision:
  "final_decision (send_notifications env s) = final_decision s"
  using send_notifications_try_decision [of env s]
  by (cases "send_notifications_try env s")
     (auto simp: send_notifications_def split: option.splits)

lemma calculate_payment_try_decision:
  "final_decision (snd (calculate_payment_try env s)) \<in> {final_decision s, ''ERROR''}"
  unfolding calculate_payment_try_def Let_def
  by (intro decision_in) simp_all

lemma calculate_payment_decision:
  "final_decision (calculate_payment env s) = final_decision s
   \<or> final_decision (calculate_payment env s) = ''ERROR''"
  using calculate_payment_try_decision [of env s]
  by (cases "calculate_payment_try env s")
     (auto simp: calculate_payment_def Let_def split: option.splits)

lemma request_approval_step_decision:
  "fst (request_approval_step env t a s) = None \<longrightarrow>
     final_decision (snd (request_approval_step env t a s))
       \<in> {''APPROVED'', ''PENDING_APPROVAL'', ''ERROR''}"
  unfolding request_approval_step_def Let_def
  by (intro returns_in) simp_all

lemma process_approval_try_decision:
  "fst (process_approval_try env s) = None \<longrightarrow>
     final_decision (snd (process_approval_try env s))
       \<in> {''APPROVED'', ''PENDING_APPROVAL'', ''ERROR''}"
  unfolding process_approval_try_def Let_def
  by (intro returns_in request_approval_step_decision) simp_all

lemma process_approval_decision:
  "final_decision (process_approval env s) \<in> {''APPROVED'', ''PENDING_APPROVAL'', ''ERROR''}"
  using process_approval_try_decision [of env s]
  by (cases "process_approval_try env s")
     (auto simp: process_approval_def Let_def split: option.splits)

text \<open>
  Claim C1, as the code has it. Whatever the decision was before, in particular
  REJECTED: \<^verbatim>\<open>send_notifications\<close> leaves it as it is; \<^verbatim>\<open>calculate_payment\<close> leaves
  it as it is or replaces it by ERROR; \<^verbatim>\<open>process_approval\<close> never keeps it, it
  always writes APPROVED, PENDING_APPROVAL or ERROR.
\<close>

theorem later_stages_and_the_decision:
  "final_decision (send_notifications env s) = final_decision s
   \<and> final_decision (calculate_payment env s) \<in> {final_decision s, ''ERROR''}
   \<and> final_decision (process_approval env s) \<in> {''APPROVED'', ''PENDING_APPROVAL'', ''ERROR''}"
  using send_notifications_decision [of env s] calculate_payment_decision [of env s]
    process_approval_decision [of env s]
  by simp

text \<open>
  Claim C1, as the specification states it, fails for a supplier the directory does not
  know: the supplier check rejects the order, the budget check leaves the rejection in
  place, and the approval stage, which auto-approves the amount, replaces REJECTED by
  APPROVED; the run ends with the decision APPROVED.
\<close>

theorem rejected_supplier_ends_approved:
  "final_decision (check_supplier unknown_supplier_env
       (validate_request unknown_supplier_env start)) = ''REJECTED''
   \<and> final_decision (verify_budget unknown_supplier_env (check_supplier unknown_supplier_env
       (validate_request unknown_supplier_env start))) = ''REJECTED''
   \<and> final_decision (process_approval unknown_supplier_env
       (verify_budget unknown_supplier_env (check_supplier unknown_supplier_env
       (validate_request unknown_supplier_env start)))) = ''APPROVED''
   \<and> (case run_graph 25 unknown_supplier_env ''validate_request'' start of
         Ended s \<Rightarrow> final_decision s
       | NoEdge a b s \<Rightarrow> []
       | StepLimit s \<Rightarrow> []) = ''APPROVED''"
  by code_simp

text \<open>
  Claim C7 at a response of the supplier service that carries \<^verbatim>\<open>error: true\<close> (here
  the response that \<^verbatim>\<open>_handle_tool_response\<close> makes of a text that is not JSON): the
  supplier check records REJECTED, with no entry in the error log, as it does for the
  business-negative answer of an unknown supplier; the budget check and the approval
  stage record ERROR for the same kind of response.
\<close>

theorem supplier_error_flag_rejects:
  "final_decision (check_supplier failing_env (validate_request failing_env start)) = ''REJECTED''
   \<and> decision_reason (check_supplier failing_env (validate_request failing_env start))
       = ''Supplier validation error: connection lost''
   \<and> errors (check_supplier failing_env (validate_request failing_env start)) = []
   \<and> final_decision (verify_budget failing_env (validate_request failing_env start)) = ''ERROR''
   \<and> final_decision (process_approval failing_env (validate_request failing_env start)) = ''ERROR''
   \<and> final_decision (check_supplier unknown_supplier_env
         (validate_request unknown_supplier_env start)) = ''REJECTED''"
  by code_simp

section \<open>Reaching the end of a run\<close>

lemma send_notifications_without_tools:
  assumes "get_tools_safe env ''notification'' = ToolDict []"
  shows "send_notifications env s =
           s\<lparr>notifications := [],
             messages := messages s @ [''Notifications sent for PO '' @ po_id s]\<rparr>"
  using assms
  by (simp add: send_notifications_def send_notifications_try_def tool_get_def on_value_def
      return_def)

lemma awaiting_routes:
  "awaiting_notification s \<Longrightarrow> should_continue s = ''send_notifications''"
  by (simp add: awaiting_notification_def should_continue_def)

lemma awaiting_kept:
  assumes "get_tools_safe env ''notification'' = ToolDict []" and "awaiting_notification s"
  shows "awaiting_notification (send_notifications env s)"
  using assms(2)
  by (simp add: send_notifications_without_tools [OF assms(1)] awaiting_notification_def)

text \<open>
  Without notification tools the notification stage records an empty list, which the
  router reads as "not sent": the stage is scheduled again, for ever.
\<close>

lemma awaiting_forever:
  assumes "get_tools_safe env ''notification'' = ToolDict []"
  shows "awaiting_notification s \<Longrightarrow> route_loop n env s = None"
proof (induction n arbitrary: s)
  case 0
  then show ?case by (simp add: awaiting_routes)
next
  case (Suc n)
  have "route_loop (Suc n) env s = route_loop n env (send_notifications env s)"
    using Suc.prems by (simp add: awaiting_routes run_node_def)
  then show ?case using Suc.IH [OF awaiting_kept [OF assms Suc.prems]] by simp
qed

lemma route_loop_more:
  "route_loop n env s = Some t \<Longrightarrow> route_loop (n + m) env s = Some t"
proof (induction n arbitrary: s)
  case 0
  then show ?case by (cases m) (simp_all split: if_splits)
next
  case (Suc n)
  then show ?case by (simp split: if_splits)
qed

lemma run_graph_settled:
  "(\<And>u. run_graph n env node s \<noteq> StepLimit u) \<Longrightarrow>
   run_graph (n + m) env node s = run_graph n env node s"
proof (induction n arbitrary: node s)
  case 0
  from 0 [of s] show ?case by simp
next
  case (Suc n)
  show ?case
  proof (cases "should_continue (run_node env node s) \<in> set (edges node)
                \<and> should_continue (run_node env node s) \<noteq> ''END''")
    case True
    then have step: "\<And>k. run_graph (Suc k) env node s
        = run_graph k env (should_continue (run_node env node s)) (run_node env node s)"
      by (simp add: Let_def)
    have "\<And>u. run_graph n env (should_continue (run_node env node s)) (run_node env node s)
             \<noteq> StepLimit u"
      using Suc.prems step by simp
    then show ?thesis using Suc.IH step by simp
  next
    case False
    then show ?thesis by (auto simp: Let_def)
  qed
qed

lemma no_tools: "get_tools_safe no_notification_tools ''notification'' = ToolDict []"
  by code_simp

lemma paid_awaiting: "awaiting_notification paid"
  by code_simp

lemma to_paid:
  "route_loop (n + 4) no_notification_tools (validate_request no_notification_tools start)
     = route_loop n no_notification_tools paid"
proof -
  let ?E = no_notification_tools
  let ?s1 = "validate_request ?E start"
  let ?s2 = "check_supplier ?E ?s1"
  let ?s3 = "verify_budget ?E ?s2"
  let ?s4 = "process_approval ?E ?s3"
  have r1: "should_continue ?s1 = ''check_supplier''" by code_simp
  have r2: "should_continue ?s2 = ''verify_budget''" by code_simp
  have r3: "should_continue ?s3 = ''process_approval''" by code_simp
  have r4: "should_continue ?s4 = ''calculate_payment''" by code_simp
  have "route_loop (Suc (Suc (Suc (Suc n)))) ?E ?s1 = route_loop n ?E paid"
    by (simp add: r1 r2 r3 r4 run_node_def paid_def)
  then show ?thesis by (simp add: numeral_eq_Suc)
qed

lemma stuck_run:
  "(case run_graph 25 no_notification_tools ''validate_request'' start of
      Ended t \<Rightarrow> False
    | NoEdge a b t \<Rightarrow> a = ''send_notifications'' \<and> b = ''send_notifications''
    | StepLimit t \<Rightarrow> False)"
  by code_simp

lemma stuck_run_result:
  "\<exists>t. run_graph 25 no_notification_tools ''validate_request'' start
         = NoEdge ''send_notifications'' ''send_notifications'' t"
  using stuck_run
  by (cases "run_graph 25 no_notification_tools ''validate_request'' start") simp_all

lemma never_ended:
  "run_graph n no_notification_tools ''validate_request'' start \<noteq> Ended t"
proof
  let ?run = "\<lambda>k. run_graph k no_notification_tools ''validate_request'' start"
  assume e: "?run n = Ended t"
  obtain u where u: "?run 25 = NoEdge ''send_notifications'' ''send_notifications'' u"
    using stuck_run_result by blast
  have a: "?run (n + 25) = ?run n"
    using e by (intro run_graph_settled) simp
  have b: "?run (25 + n) = ?run 25"
    using u by (intro run_graph_settled) simp
  from a b e u show False by (simp add: add.commute)
qed

text \<open>
  Claim C2 when the notification server offers no tools and every other collaborator
  answers well. After the payment stage the router names \<^verbatim>\<open>send_notifications\<close>, and
  names it again after that stage has run. Following the router, the run is not over
  after any number of stages; in the graph, the second answer has no edge out of the
  notification node, so no run of any length ends at \<^verbatim>\<open>END\<close>.
\<close>

theorem notification_stage_rescheduled:
  "should_continue paid = ''send_notifications''
   \<and> should_continue (send_notifications no_notification_tools paid) = ''send_notifications''
   \<and> (\<forall>n. route_loop n no_notification_tools
             (validate_request no_notification_tools start) = None)
   \<and> (\<forall>n t. run_graph n no_notification_tools ''validate_request'' start \<noteq> Ended t)
   \<and> (\<exists>t. run_graph 25 no_notification_tools ''validate_request'' start
             = NoEdge ''send_notifications'' ''send_notifications'' t)"
proof -
  have 1: "should_continue paid = ''send_notifications''"
    using awaiting_routes [OF paid_awaiting] .
  have 2: "should_continue (send_notifications no_notification_tools paid)
             = ''send_notifications''"
    using awaiting_routes [OF awaiting_kept [OF no_tools paid_awaiting]] .
  have 3: "route_loop n no_notification_tools
             (validate_request no_notification_tools start) = None" for n
  proof (cases "route_loop n no_notification_tools
             (validate_request no_notification_tools start)")
    case None
    then show ?thesis .
  next
    case (Some t)
    then have "route_loop (n + 4) no_notification_tools
             (validate_request no_notification_tools start) = Some t"
      by (rule route_loop_more)
    then show ?thesis
      using awaiting_forever [OF no_tools paid_awaiting, of n] by (simp add: to_paid)
  qed
  from 1 2 3 never_ended stuck_run_result show ?thesis by blast
qed

end
